theory Spec2Isabelle
  imports Main "HOL-Library.Word"
begin

section \<open>JavaScript strings\<close>

text \<open>
  A JavaScript string is a sequence of UTF-16 code units. The empty string is the only
  falsy string, so \<open>s \<noteq> []\<close> is the truthiness test the components apply to strings.
  \<open>lit\<close> embeds an ASCII literal of the source: each character is its own code unit.
\<close>

type_synonym jsstring = "16 word list"

definition lit :: "string \<Rightarrow> jsstring" where
  "lit s = map of_char s"

text \<open>
  \<open>String.prototype.trim\<close> strips the code units of the ECMAScript productions
  WhiteSpace and LineTerminator from both ends: TAB, LF, VT, FF, CR, SPACE, NBSP,
  OGHAM SPACE MARK, EN QUAD .. HAIR SPACE, LINE and PARAGRAPH SEPARATOR, NARROW NBSP,
  MEDIUM MATHEMATICAL SPACE, IDEOGRAPHIC SPACE and the BOM.
\<close>

definition isWhiteSpace :: "16 word \<Rightarrow> bool" where
  "isWhiteSpace c \<longleftrightarrow>
     c = 0x0009 \<or> c = 0x000A \<or> c = 0x000B \<or> c = 0x000C \<or> c = 0x000D \<or> c = 0x0020 \<or>
     c = 0x00A0 \<or> c = 0x1680 \<or> (0x2000 \<le> c \<and> c \<le> 0x200A) \<or> c = 0x2028 \<or>
     c = 0x2029 \<or> c = 0x202F \<or> c = 0x205F \<or> c = 0x3000 \<or> c = 0xFEFF"

definition trim :: "jsstring \<Rightarrow> jsstring" where
  "trim s = rev (dropWhile isWhiteSpace (rev (dropWhile isWhiteSpace s)))"

text \<open>\<open>Array.prototype.includes\<close> on an array of strings: exact equality of code units.\<close>

definition includes_js :: "jsstring list \<Rightarrow> jsstring \<Rightarrow> bool" where
  "includes_js xs x \<longleftrightarrow> x \<in> set xs"

text \<open>
  \<open>xs.filter((x, i) => p(x, i))\<close>: the callback sees each element with its position,
  counted from the index given (0 at the call).
\<close>

fun filter_indexed :: "('a \<Rightarrow> nat \<Rightarrow> bool) \<Rightarrow> nat \<Rightarrow> 'a list \<Rightarrow> 'a list" where
  "filter_indexed p i [] = []"
| "filter_indexed p i (x # xs) =
     (if p x i then x # filter_indexed p (Suc i) xs else filter_indexed p (Suc i) xs)"

text \<open>\<open>xs.map((x, i) => f(x, i))\<close>, likewise.\<close>

fun map_indexed :: "('a \<Rightarrow> nat \<Rightarrow> 'b) \<Rightarrow> nat \<Rightarrow> 'a list \<Rightarrow> 'b list" where
  "map_indexed f i [] = []"
| "map_indexed f i (x # xs) = f x i # map_indexed f (Suc i) xs"

section \<open>What a panel does to the outside\<close>

text \<open>
  The awaited \<open>axios.post\<close> either resolves with a response whose \<open>data\<close> the component
  stores, or throws; \<open>Rejected\<close> stands for every way it throws, which is all the
  \<open>catch\<close> block distinguishes. The effects of a call are the requests it posts and the
  lines it writes with \<open>console.error\<close>, in order.
\<close>

datatype 'd outcome = Resolved 'd | Rejected

text \<open>
  \<open>response.data\<close> is stored unchecked, so a result cell holds whatever the library
  hands over: \<open>null\<close> (\<open>None\<close>), an object parsed from the body, taken to be of the
  interface the component declares for the cell (\<open>Parsed\<close>), or the text of a body that
  is not JSON (\<open>Unparsed\<close>). The view tests the cell for truthiness: \<open>null\<close> and the
  empty string are falsy.
\<close>

datatype 'r response_data = Parsed 'r | Unparsed jsstring

fun truthy :: "'r response_data option \<Rightarrow> bool" where
  "truthy None = False"
| "truthy (Some (Parsed r)) = True"
| "truthy (Some (Unparsed raw)) = (raw \<noteq> [])"




datatype 'b effect = HttpPost jsstring 'b | ConsoleError jsstring

text \<open>The requests among the effects of a call: address and body.\<close>

fun posts :: "'b effect list \<Rightarrow> (jsstring \<times> 'b) list" where
  "posts [] = []"
| "posts (HttpPost u b # es) = (u, b) # posts es"
| "posts (ConsoleError m # es) = posts es"

text \<open>
  Neither component keeps a status field: each holds \<open>loading\<close>, \<open>error\<close> and its
  result, and the view branches on the three separately (the alert is rendered whenever
  \<open>error\<close> is non-empty, the spinner whenever \<open>loading\<close> is set, the result whenever it
  is truthy). The four-valued status of the specification is read off them: \<open>Error\<close>
  when a message is held, else \<open>Loading\<close> when \<open>loading\<close> is set, else \<open>Success\<close> when
  a result is held, else \<open>Idle\<close>. In the states a mounted panel reaches at most one of
  the three holds (\<open>recipe_reachable_inv\<close>, \<open>menu_reachable_inv\<close> below), so there the
  order does not matter.
\<close>

datatype status = Idle | Loading | Success | Error

definition panel_status :: "bool \<Rightarrow> jsstring \<Rightarrow> bool \<Rightarrow> status" where
  "panel_status ld err has_result =
     (if err \<noteq> [] then Error else if ld then Loading else if has_result then Success else Idle)"

section \<open>RecipeGenerator\<close>

record RecipeResponse =
  recipe_name :: jsstring
  ingredients :: "jsstring list"
  instructions :: "jsstring list"
  calories :: int
  eco_tip :: jsstring
  eco_score :: jsstring
  health_score :: jsstring
  prep_time :: jsstring
  difficulty :: jsstring

text \<open>The body posted to \<open>/generate-recipe\<close>; \<open>None\<close> is JSON \<open>null\<close>.\<close>

record RecipeRequest =
  ingredients :: "jsstring list"
  dietary_preferences :: "jsstring option"

text \<open>The six \<open>useState\<close> cells of the component.\<close>

record RecipeGenerator =
  ingredients :: "jsstring list"
  newIngredient :: jsstring
  dietaryPreferences :: jsstring
  recipe :: "RecipeResponse response_data option"
  loading :: bool
  error :: jsstring

definition RecipeGenerator_init :: RecipeGenerator where
  "RecipeGenerator_init =
     \<lparr>ingredients = [], newIngredient = [], dietaryPreferences = [], recipe = None,
      loading = False, error = []\<rparr>"

definition addIngredient :: "RecipeGenerator \<Rightarrow> RecipeGenerator" where
  "addIngredient s =
     (if trim (newIngredient s) \<noteq> [] \<and>
         \<not> includes_js (RecipeGenerator.ingredients s) (trim (newIngredient s))
      then s\<lparr>RecipeGenerator.ingredients :=
                RecipeGenerator.ingredients s @ [trim (newIngredient s)],
             newIngredient := []\<rparr>
      else s)"

definition removeIngredient :: "int \<Rightarrow> RecipeGenerator \<Rightarrow> RecipeGenerator" where
  "removeIngredient index s =
     s\<lparr>RecipeGenerator.ingredients :=
         filter_indexed (\<lambda>_ i. int i \<noteq> index) 0 (RecipeGenerator.ingredients s)\<rparr>"

text \<open>
  \<open>generateRecipe\<close> is asynchronous. \<open>generateRecipe_call\<close> is what runs when it is
  called, up to the \<open>await\<close>: the early return on an empty list, or the three setters
  and the request. \<open>generateRecipe_resume\<close> is what runs when the request settles: the
  rest of \<open>try\<close>, or \<open>catch\<close>, and then \<open>finally\<close>. The setters write single cells, so
  the second half acts on the state as it is by then.
\<close>

definition generateRecipe_call ::
  "RecipeGenerator \<Rightarrow> RecipeGenerator \<times> RecipeRequest effect list" where
  "generateRecipe_call s =
     (if length (RecipeGenerator.ingredients s) = 0
      then (s\<lparr>error := lit ''Please add at least one ingredient''\<rparr>, [])
      else (s\<lparr>loading := True, error := [], recipe := None\<rparr>,
            [HttpPost (lit ''http://localhost:8001/generate-recipe'')
               \<lparr>RecipeRequest.ingredients = RecipeGenerator.ingredients s,
                dietary_preferences =
                  (if dietaryPreferences s \<noteq> [] then Some (dietaryPreferences s) else None)\<rparr>]))"

definition generateRecipe_resume ::
  "RecipeResponse response_data option outcome \<Rightarrow> RecipeGenerator \<Rightarrow>
     RecipeGenerator \<times> RecipeRequest effect list" where
  "generateRecipe_resume r s =
     (case r of
        Resolved d \<Rightarrow> (s\<lparr>recipe := d, loading := False\<rparr>, [])
      | Rejected \<Rightarrow>
          (s\<lparr>error := lit ''Failed to generate recipe. Please try again.'', loading := False\<rparr>,
           [ConsoleError (lit ''Error generating recipe:'')]))"

text \<open>A whole run of \<open>generateRecipe\<close> with nothing else happening while it waits.\<close>

definition generateRecipe ::
  "RecipeResponse response_data option outcome \<Rightarrow> RecipeGenerator \<Rightarrow>
     RecipeGenerator \<times> RecipeRequest effect list" where
  "generateRecipe r s =
     (if length (RecipeGenerator.ingredients s) = 0 then generateRecipe_call s
      else (let (s1, e1) = generateRecipe_call s;
                (s2, e2) = generateRecipe_resume r s1
            in (s2, e1 @ e2)))"

definition recipe_getScoreColor :: "jsstring \<Rightarrow> jsstring" where
  "recipe_getScoreColor score =
     (if score = lit ''green'' then lit ''text-green-600 bg-green-100''
      else if score = lit ''yellow'' then lit ''text-yellow-600 bg-yellow-100''
      else if score = lit ''red'' then lit ''text-red-600 bg-red-100''
      else lit ''text-gray-600 bg-gray-100'')"

text \<open>
  The icons are emoji literals: WHITE HEAVY CHECK MARK (U+2705), WARNING SIGN with the
  emoji variation selector (U+26A0 U+FE0F) and BLACK QUESTION MARK ORNAMENT (U+2753).
\<close>

definition recipe_getScoreIcon :: "jsstring \<Rightarrow> jsstring" where
  "recipe_getScoreIcon score =
     (if score = lit ''green'' then [0x2705]
      else if score = lit ''yellow'' then [0x26A0, 0xFE0F]
      else if score = lit ''red'' then [0x26A0, 0xFE0F]
      else [0x2753])"

text \<open>
  \<open>add(raw)\<close> of the collector: the user types \<open>raw\<close> into the pending input field
  (its \<open>onChange\<close> stores the value), then the add handler runs.
\<close>

definition recipe_add_raw :: "jsstring \<Rightarrow> RecipeGenerator \<Rightarrow> RecipeGenerator" where
  "recipe_add_raw raw s = addIngredient (s\<lparr>newIngredient := raw\<rparr>)"

text \<open>
  The part of the returned JSX that depends on the state: whether the trigger button is
  disabled, the alert, and the display section, which is the recipe card when a recipe is
  held and a placeholder otherwise. A list entry carries its React key; an instruction
  entry also carries the number shown in its badge, \<open>index + 1\<close>. A non-empty string
  in the cell takes the card branch, where \<open>recipe.ingredients\<close> is undefined and calling
  \<open>map\<close> on it throws a TypeError.
\<close>

record RecipeCard =
  card_name :: jsstring
  card_prep_time :: jsstring
  card_calories :: int
  card_difficulty :: jsstring
  eco_class :: jsstring
  eco_icon :: jsstring
  health_class :: jsstring
  health_icon :: jsstring
  card_eco_tip :: jsstring
  ingredient_entries :: "(nat \<times> jsstring) list"
  instruction_entries :: "(nat \<times> nat \<times> jsstring) list"

datatype recipe_display = Card RecipeCard | Placeholder jsstring | RenderTypeError

definition generate_disabled :: "RecipeGenerator \<Rightarrow> bool" where
  "generate_disabled s \<longleftrightarrow> loading s \<or> length (RecipeGenerator.ingredients s) = 0"

definition recipe_alert :: "RecipeGenerator \<Rightarrow> jsstring option" where
  "recipe_alert s = (if error s \<noteq> [] then Some (error s) else None)"

definition render_recipe :: "RecipeGenerator \<Rightarrow> recipe_display" where
  "render_recipe s =
     (case recipe s of
        Some (Parsed r) \<Rightarrow>
          Card \<lparr>card_name = recipe_name r,
                card_prep_time = prep_time r,
                card_calories = calories r,
                card_difficulty = difficulty r,
                eco_class = lit ''p-3 rounded-lg '' @ recipe_getScoreColor (eco_score r),
                eco_icon = recipe_getScoreIcon (eco_score r),
                health_class = lit ''p-3 rounded-lg '' @ recipe_getScoreColor (health_score r),
                health_icon = recipe_getScoreIcon (health_score r),
                card_eco_tip = eco_tip r,
                ingredient_entries =
                  map_indexed (\<lambda>ingredient index. (index, ingredient)) 0
                    (RecipeResponse.ingredients r),
                instruction_entries =
                  map_indexed (\<lambda>instruction index. (index, index + 1, instruction)) 0
                    (instructions r)\<rparr>
      | Some (Unparsed raw) \<Rightarrow>
          (if raw \<noteq> [] then RenderTypeError
           else Placeholder (if loading s then lit ''Generating your recipe...''
                             else lit ''Your generated recipe will appear here''))
      | None \<Rightarrow>
          Placeholder (if loading s then lit ''Generating your recipe...''
                       else lit ''Your generated recipe will appear here''))"

definition recipe_status :: "RecipeGenerator \<Rightarrow> status" where
  "recipe_status s = panel_status (loading s) (error s) (truthy (recipe s))"

text \<open>
  The states the mounted component can be in. The user types in either field, adds,
  removes, and clicks the trigger button, which the browser lets through only while the
  button is not disabled; a pending request settles either way. \<open>loading\<close> is set
  exactly while a request is pending.
\<close>

inductive recipe_reachable :: "RecipeGenerator \<Rightarrow> bool" where
  recipe_mount: "recipe_reachable RecipeGenerator_init"
| recipe_type_ingredient:
    "recipe_reachable s \<Longrightarrow> recipe_reachable (s\<lparr>newIngredient := v\<rparr>)"
| recipe_type_preferences:
    "recipe_reachable s \<Longrightarrow> recipe_reachable (s\<lparr>dietaryPreferences := v\<rparr>)"
| recipe_add: "recipe_reachable s \<Longrightarrow> recipe_reachable (addIngredient s)"
| recipe_remove: "recipe_reachable s \<Longrightarrow> recipe_reachable (removeIngredient index s)"
| recipe_click:
    "recipe_reachable s \<Longrightarrow> \<not> generate_disabled s \<Longrightarrow>
       recipe_reachable (fst (generateRecipe_call s))"
| recipe_settle:
    "recipe_reachable s \<Longrightarrow> loading s \<Longrightarrow>
       recipe_reachable (fst (generateRecipe_resume r s))"

section \<open>MenuAnalyzer\<close>

record MenuItemAnalysis =
  item :: jsstring
  eco_rating :: jsstring
  suggestion :: jsstring

record MenuAnalysisResponse =
  restaurant_name :: jsstring
  eco_analysis :: jsstring
  recommendations :: "jsstring list"
  overall_eco_score :: jsstring
  menu_items_analysis :: "MenuItemAnalysis list"

text \<open>
  The body posted to \<open>/restaurant-analysis\<close>. The name is typed like the recipe panel's
  modifier, \<open>None\<close> being JSON \<open>null\<close>.
\<close>

record MenuRequest =
  menu_items :: "jsstring list"
  restaurant_name :: "jsstring option"

record MenuAnalyzer =
  menuItems :: "jsstring list"
  newMenuItem :: jsstring
  restaurantName :: jsstring
  analysis :: "MenuAnalysisResponse response_data option"
  loading :: bool
  error :: jsstring

definition MenuAnalyzer_init :: MenuAnalyzer where
  "MenuAnalyzer_init =
     \<lparr>menuItems = [], newMenuItem = [], restaurantName = [], analysis = None,
      loading = False, error = []\<rparr>"

definition addMenuItem :: "MenuAnalyzer \<Rightarrow> MenuAnalyzer" where
  "addMenuItem s =
     (if trim (newMenuItem s) \<noteq> [] \<and> \<not> includes_js (menuItems s) (trim (newMenuItem s))
      then s\<lparr>menuItems := menuItems s @ [trim (newMenuItem s)], newMenuItem := []\<rparr>
      else s)"

definition removeMenuItem :: "int \<Rightarrow> MenuAnalyzer \<Rightarrow> MenuAnalyzer" where
  "removeMenuItem index s =
     s\<lparr>menuItems := filter_indexed (\<lambda>_ i. int i \<noteq> index) 0 (menuItems s)\<rparr>"

definition menu_add_raw :: "jsstring \<Rightarrow> MenuAnalyzer \<Rightarrow> MenuAnalyzer" where
  "menu_add_raw raw s = addMenuItem (s\<lparr>newMenuItem := raw\<rparr>)"

text \<open>\<open>analyzeMenu\<close>, split at its \<open>await\<close> like \<open>generateRecipe\<close>.\<close>

definition analyzeMenu_call :: "MenuAnalyzer \<Rightarrow> MenuAnalyzer \<times> MenuRequest effect list" where
  "analyzeMenu_call s =
     (if length (menuItems s) = 0
      then (s\<lparr>error := lit ''Please add at least one menu item''\<rparr>, [])
      else (s\<lparr>loading := True, error := [], analysis := None\<rparr>,
            [HttpPost (lit ''http://localhost:8001/restaurant-analysis'')
               \<lparr>menu_items = menuItems s,
                restaurant_name =
                  Some (if restaurantName s \<noteq> [] then restaurantName s
                        else lit ''Restaurant'')\<rparr>]))"

definition analyzeMenu_resume ::
  "MenuAnalysisResponse response_data option outcome \<Rightarrow> MenuAnalyzer \<Rightarrow>
     MenuAnalyzer \<times> MenuRequest effect list" where
  "analyzeMenu_resume r s =
     (case r of
        Resolved d \<Rightarrow> (s\<lparr>analysis := d, loading := False\<rparr>, [])
      | Rejected \<Rightarrow>
          (s\<lparr>error := lit ''Failed to analyze menu. Please try again.'', loading := False\<rparr>,
           [ConsoleError (lit ''Error analyzing menu:'')]))"

definition analyzeMenu ::
  "MenuAnalysisResponse response_data option outcome \<Rightarrow> MenuAnalyzer \<Rightarrow>
     MenuAnalyzer \<times> MenuRequest effect list" where
  "analyzeMenu r s =
     (if length (menuItems s) = 0 then analyzeMenu_call s
      else (let (s1, e1) = analyzeMenu_call s;
                (s2, e2) = analyzeMenu_resume r s1
            in (s2, e1 @ e2)))"

definition menu_getScoreColor :: "jsstring \<Rightarrow> jsstring" where
  "menu_getScoreColor score =
     (if score = lit ''green'' then lit ''text-green-600 bg-green-100''
      else if score = lit ''yellow'' then lit ''text-yellow-600 bg-yellow-100''
      else if score = lit ''red'' then lit ''text-red-600 bg-red-100''
      else lit ''text-gray-600 bg-gray-100'')"

text \<open>
  Here the icons are elements of the icon library, each with its \<open>className\<close>.
\<close>

datatype lucide_icon = CheckCircle jsstring | AlertCircle jsstring | XCircle jsstring

definition menu_getScoreIcon :: "jsstring \<Rightarrow> lucide_icon" where
  "menu_getScoreIcon score =
     (if score = lit ''green'' then CheckCircle (lit ''h-5 w-5'')
      else if score = lit ''yellow'' then AlertCircle (lit ''h-5 w-5'')
      else if score = lit ''red'' then XCircle (lit ''h-5 w-5'')
      else AlertCircle (lit ''h-5 w-5''))"

definition analyze_disabled :: "MenuAnalyzer \<Rightarrow> bool" where
  "analyze_disabled s \<longleftrightarrow> loading s \<or> length (menuItems s) = 0"

definition menu_alert :: "MenuAnalyzer \<Rightarrow> jsstring option" where
  "menu_alert s = (if error s \<noteq> [] then Some (error s) else None)"

definition menu_status :: "MenuAnalyzer \<Rightarrow> status" where
  "menu_status s = panel_status (loading s) (error s) (truthy (analysis s))"

inductive menu_reachable :: "MenuAnalyzer \<Rightarrow> bool" where
  menu_mount: "menu_reachable MenuAnalyzer_init"
| menu_type_item: "menu_reachable s \<Longrightarrow> menu_reachable (s\<lparr>newMenuItem := v\<rparr>)"
| menu_type_name: "menu_reachable s \<Longrightarrow> menu_reachable (s\<lparr>restaurantName := v\<rparr>)"
| menu_add: "menu_reachable s \<Longrightarrow> menu_reachable (addMenuItem s)"
| menu_remove: "menu_reachable s \<Longrightarrow> menu_reachable (removeMenuItem index s)"
| menu_click:
    "menu_reachable s \<Longrightarrow> \<not> analyze_disabled s \<Longrightarrow>
       menu_reachable (fst (analyzeMenu_call s))"
| menu_settle:
    "menu_reachable s \<Longrightarrow> loading s \<Longrightarrow> menu_reachable (fst (analyzeMenu_resume r s))"

section \<open>Example runs\<close>

text \<open>
  The response of the specification's rendering example, and two runs of the panels used
  below as concrete inputs. In the recipe run the user adds one ingredient, submits, the
  request resolves with that response, the user removes the ingredient again, and
  \<open>generateRecipe\<close> is called on the now empty list. In the menu run the user adds one
  item, leaves the restaurant name blank, submits, and the request fails. Each run has a
  variant in which the request settles the other way.
\<close>

definition mocked_recipe :: RecipeResponse where
  "mocked_recipe =
     \<lparr>recipe_name = lit ''Veggie Stir Fry'',
      RecipeResponse.ingredients = [lit ''carrot'', lit ''broccoli''],
      instructions = [lit ''Chop'', lit ''Cook''],
      calories = 320,
      eco_tip = lit ''Use scraps for stock'',
      eco_score = lit ''green'',
      health_score = lit ''yellow'',
      prep_time = lit ''20 min'',
      difficulty = lit ''Easy''\<rparr>"

definition recipe_run_added :: RecipeGenerator where
  "recipe_run_added = recipe_add_raw (lit '' egg '') RecipeGenerator_init"

definition recipe_run_pending :: RecipeGenerator where
  "recipe_run_pending = fst (generateRecipe_call recipe_run_added)"

definition recipe_run_shown :: RecipeGenerator where
  "recipe_run_shown =
     fst (generateRecipe_resume (Resolved (Some (Parsed mocked_recipe))) recipe_run_pending)"

definition recipe_run_emptied :: RecipeGenerator where
  "recipe_run_emptied = removeIngredient 0 recipe_run_shown"

definition recipe_run_invalid :: RecipeGenerator where
  "recipe_run_invalid = fst (generateRecipe_call recipe_run_emptied)"

definition menu_run_added :: MenuAnalyzer where
  "menu_run_added = menu_add_raw (lit ''soup'') MenuAnalyzer_init"

definition menu_run_pending :: MenuAnalyzer where
  "menu_run_pending = fst (analyzeMenu_call menu_run_added)"

definition menu_run_failed :: MenuAnalyzer where
  "menu_run_failed = fst (analyzeMenu_resume Rejected menu_run_pending)"

definition recipe_run_failed :: RecipeGenerator where
  "recipe_run_failed = fst (generateRecipe_resume Rejected recipe_run_pending)"

definition sample_analysis :: MenuAnalysisResponse where
  "sample_analysis =
     \<lparr>MenuAnalysisResponse.restaurant_name = lit ''Restaurant'',
      eco_analysis = lit ''Mostly plant based'',
      recommendations = [lit ''Keep it seasonal''],
      overall_eco_score = lit ''green'',
      menu_items_analysis =
        [\<lparr>item = lit ''soup'', eco_rating = lit ''green'', suggestion = lit ''None needed''\<rparr>]\<rparr>"

definition menu_run_shown :: MenuAnalyzer where
  "menu_run_shown = fst (analyzeMenu_resume (Resolved (Some (Parsed sample_analysis))) menu_run_pending)"

section \<open>Facts about the string and array primitives\<close>

lemma lit_Nil_iff: "lit s = [] \<longleftrightarrow> s = []"
  by (simp add: lit_def)

lemma truthy_not_None: "truthy d \<Longrightarrow> d \<noteq> None"
  by (cases d) simp_all

lemma of_char_word16_inj: "(of_char c :: 16 word) = of_char d \<Longrightarrow> c = d"
proof -
  assume h: "(of_char c :: 16 word) = of_char d"
  have u: "unat (of_char a :: 16 word) = of_char a" for a
  proof -
    have a: "(of_char a :: nat) < 256" by (cases a) simp
    have "(of_char a :: nat) < 65536" using a by linarith
    then have b: "(of_char a :: nat) < 2 ^ LENGTH(16)" by simp
    have "unat (of_nat (of_char a) :: 16 word) = of_char a"
      using b by (simp only: unat_of_nat mod_less)
    then show ?thesis by (simp only: of_nat_of_char)
  qed
  from h have "unat (of_char c :: 16 word) = unat (of_char d :: 16 word)" by simp
  then have "(of_char c :: nat) = of_char d" by (simp only: u)
  then show "c = d" by simp
qed

lemma lit_eq_iff: "lit a = lit b \<longleftrightarrow> a = b"
proof -
  have "inj (of_char :: char \<Rightarrow> 16 word)"
    using of_char_word16_inj by (simp add: inj_on_def)
  then show ?thesis unfolding lit_def by simp
qed

lemma filter_indexed_skip:
  "filter_indexed (\<lambda>_ i. int i \<noteq> index) k xs =
     (if int k \<le> index \<and> index < int k + int (length xs)
      then take (nat index - k) xs @ drop (Suc (nat index - k)) xs else xs)"
proof (induction xs arbitrary: k)
  case Nil
  then show ?case by simp
next
  case (Cons x xs)
  show ?case
  proof (cases "int k = index")
    case True
    then show ?thesis using Cons[of "Suc k"] by auto
  next
    case False
    show ?thesis
    proof (cases "int k < index \<and> index < int k + int (length (x # xs))")
      case True
      then have e: "nat index - k = Suc (nat index - Suc k)" by linarith
      from True have "int (Suc k) \<le> index \<and> index < int (Suc k) + int (length xs)" by simp
      then show ?thesis using Cons[of "Suc k"] True False by (simp add: e)
    next
      case out: False
      then have "\<not> (int (Suc k) \<le> index \<and> index < int (Suc k) + int (length xs))"
        using False by auto
      then show ?thesis using Cons[of "Suc k"] out False by auto
    qed
  qed
qed

lemma filter_indexed_subset: "set (filter_indexed p k xs) \<subseteq> set xs"
  by (induction xs arbitrary: k) auto

lemma filter_indexed_distinct: "distinct xs \<Longrightarrow> distinct (filter_indexed p k xs)"
  using filter_indexed_subset by (induction xs arbitrary: k) fastforce+

section \<open>The example runs, evaluated\<close>

lemma trim_egg: "trim (lit '' egg '') = lit ''egg''"
  by (simp add: trim_def lit_def isWhiteSpace_def)

lemma trim_soup: "trim (lit ''soup'') = lit ''soup''"
  by (simp add: trim_def lit_def isWhiteSpace_def)

lemma recipe_run_added_eq:
  "recipe_run_added = RecipeGenerator_init\<lparr>RecipeGenerator.ingredients := [lit ''egg'']\<rparr>"
  by (simp add: recipe_run_added_def recipe_add_raw_def addIngredient_def includes_js_def
      trim_egg lit_Nil_iff RecipeGenerator_init_def)

lemma recipe_run_pending_eq:
  "recipe_run_pending =
     RecipeGenerator_init\<lparr>RecipeGenerator.ingredients := [lit ''egg''],
                           RecipeGenerator.loading := True\<rparr>"
  by (simp add: recipe_run_pending_def recipe_run_added_eq generateRecipe_call_def
      RecipeGenerator_init_def)

lemma recipe_run_shown_eq:
  "recipe_run_shown =
     RecipeGenerator_init\<lparr>RecipeGenerator.ingredients := [lit ''egg''],
                           recipe := Some (Parsed mocked_recipe)\<rparr>"
  by (simp add: recipe_run_shown_def recipe_run_pending_eq generateRecipe_resume_def
      RecipeGenerator_init_def)

lemma recipe_run_emptied_eq:
  "recipe_run_emptied = RecipeGenerator_init\<lparr>recipe := Some (Parsed mocked_recipe)\<rparr>"
  by (simp add: recipe_run_emptied_def recipe_run_shown_eq removeIngredient_def
      RecipeGenerator_init_def)

lemma recipe_run_invalid_eq:
  "recipe_run_invalid =
     RecipeGenerator_init\<lparr>recipe := Some (Parsed mocked_recipe),
        RecipeGenerator.error := lit ''Please add at least one ingredient''\<rparr>"
  by (simp add: recipe_run_invalid_def recipe_run_emptied_eq generateRecipe_call_def
      RecipeGenerator_init_def)

lemma recipe_run_added_reachable: "recipe_reachable recipe_run_added"
  unfolding recipe_run_added_def recipe_add_raw_def
  by (intro recipe_add recipe_type_ingredient recipe_mount)

lemma recipe_run_pending_reachable: "recipe_reachable recipe_run_pending"
  unfolding recipe_run_pending_def
  by (rule recipe_click [OF recipe_run_added_reachable])
    (simp add: recipe_run_added_eq generate_disabled_def RecipeGenerator_init_def)

lemma recipe_run_shown_reachable: "recipe_reachable recipe_run_shown"
  unfolding recipe_run_shown_def
  by (rule recipe_settle [OF recipe_run_pending_reachable])
    (simp add: recipe_run_pending_eq RecipeGenerator_init_def)

lemma recipe_run_emptied_reachable: "recipe_reachable recipe_run_emptied"
  unfolding recipe_run_emptied_def by (rule recipe_remove [OF recipe_run_shown_reachable])

lemma menu_run_added_eq: "menu_run_added = MenuAnalyzer_init\<lparr>menuItems := [lit ''soup'']\<rparr>"
  by (simp add: menu_run_added_def menu_add_raw_def addMenuItem_def includes_js_def
      trim_soup lit_Nil_iff MenuAnalyzer_init_def)

lemma menu_run_pending_eq:
  "menu_run_pending = MenuAnalyzer_init\<lparr>menuItems := [lit ''soup''], loading := True\<rparr>"
  by (simp add: menu_run_pending_def menu_run_added_eq analyzeMenu_call_def
      MenuAnalyzer_init_def)

lemma menu_run_failed_eq:
  "menu_run_failed =
     MenuAnalyzer_init\<lparr>menuItems := [lit ''soup''],
                        error := lit ''Failed to analyze menu. Please try again.''\<rparr>"
  by (simp add: menu_run_failed_def menu_run_pending_eq analyzeMenu_resume_def
      MenuAnalyzer_init_def)

lemma menu_run_added_reachable: "menu_reachable menu_run_added"
  unfolding menu_run_added_def menu_add_raw_def
  by (intro menu_add menu_type_item menu_mount)

lemma menu_run_pending_reachable: "menu_reachable menu_run_pending"
  unfolding menu_run_pending_def
  by (rule menu_click [OF menu_run_added_reachable])
    (simp add: menu_run_added_eq analyze_disabled_def MenuAnalyzer_init_def)

lemma menu_run_failed_reachable: "menu_reachable menu_run_failed"
  unfolding menu_run_failed_def
  by (rule menu_settle [OF menu_run_pending_reachable])
    (simp add: menu_run_pending_eq MenuAnalyzer_init_def)

lemma recipe_run_failed_eq:
  "recipe_run_failed =
     RecipeGenerator_init\<lparr>RecipeGenerator.ingredients := [lit ''egg''],
       RecipeGenerator.error := lit ''Failed to generate recipe. Please try again.''\<rparr>"
  by (simp add: recipe_run_failed_def recipe_run_pending_eq generateRecipe_resume_def
      RecipeGenerator_init_def)

lemma recipe_run_failed_reachable: "recipe_reachable recipe_run_failed"
  unfolding recipe_run_failed_def
  by (rule recipe_settle [OF recipe_run_pending_reachable])
    (simp add: recipe_run_pending_eq RecipeGenerator_init_def)

lemma menu_run_shown_eq:
  "menu_run_shown =
     MenuAnalyzer_init\<lparr>menuItems := [lit ''soup''], analysis := Some (Parsed sample_analysis)\<rparr>"
  by (simp add: menu_run_shown_def menu_run_pending_eq analyzeMenu_resume_def
      MenuAnalyzer_init_def)

lemma menu_run_shown_reachable: "menu_reachable menu_run_shown"
  unfolding menu_run_shown_def
  by (rule menu_settle [OF menu_run_pending_reachable])
    (simp add: menu_run_pending_eq MenuAnalyzer_init_def)

section \<open>Invariants of the reachable states\<close>

text \<open>
  While a request is pending neither a result nor a message is held, and a result and a
  message are never held together.
\<close>

lemma recipe_reachable_inv:
  "recipe_reachable s \<Longrightarrow>
     (RecipeGenerator.loading s \<longrightarrow> recipe s = None \<and> RecipeGenerator.error s = []) \<and>
     (recipe s = None \<or> RecipeGenerator.error s = [])"
proof (induction rule: recipe_reachable.induct)
  case recipe_mount
  show ?case by (simp add: RecipeGenerator_init_def)
next
  case (recipe_add s)
  then show ?case by (simp add: addIngredient_def)
next
  case (recipe_remove s index)
  then show ?case by (simp add: removeIngredient_def)
next
  case (recipe_click s)
  then show ?case by (simp add: generateRecipe_call_def generate_disabled_def)
next
  case (recipe_settle s r)
  then show ?case by (cases r) (simp_all add: generateRecipe_resume_def)
qed simp_all

lemma menu_reachable_inv:
  "menu_reachable s \<Longrightarrow>
     (loading s \<longrightarrow> analysis s = None \<and> error s = []) \<and> (analysis s = None \<or> error s = [])"
proof (induction rule: menu_reachable.induct)
  case menu_mount
  show ?case by (simp add: MenuAnalyzer_init_def)
next
  case (menu_add s)
  then show ?case by (simp add: addMenuItem_def)
next
  case (menu_remove s index)
  then show ?case by (simp add: removeMenuItem_def)
next
  case (menu_click s)
  then show ?case by (simp add: analyzeMenu_call_def analyze_disabled_def)
next
  case (menu_settle s r)
  then show ?case by (cases r) (simp_all add: analyzeMenu_resume_def)
qed simp_all

text \<open>The collection never holds a string twice, nor the empty string.\<close>

lemma recipe_reachable_distinct:
  "recipe_reachable s \<Longrightarrow>
     distinct (RecipeGenerator.ingredients s) \<and> [] \<notin> set (RecipeGenerator.ingredients s)"
proof (induction rule: recipe_reachable.induct)
  case recipe_mount
  show ?case by (simp add: RecipeGenerator_init_def)
next
  case (recipe_add s)
  then show ?case by (auto simp: addIngredient_def includes_js_def)
next
  case (recipe_remove s index)
  then show ?case
    using filter_indexed_subset [of "\<lambda>_ i. int i \<noteq> index" 0 "RecipeGenerator.ingredients s"]
    by (auto simp: removeIngredient_def filter_indexed_distinct)
next
  case (recipe_click s)
  then show ?case by (simp add: generateRecipe_call_def generate_disabled_def)
next
  case (recipe_settle s r)
  then show ?case by (cases r) (simp_all add: generateRecipe_resume_def)
qed simp_all

lemma menu_reachable_distinct:
  "menu_reachable s \<Longrightarrow> distinct (menuItems s) \<and> [] \<notin> set (menuItems s)"
proof (induction rule: menu_reachable.induct)
  case menu_mount
  show ?case by (simp add: MenuAnalyzer_init_def)
next
  case (menu_add s)
  then show ?case by (auto simp: addMenuItem_def includes_js_def)
next
  case (menu_remove s index)
  then show ?case
    using filter_indexed_subset [of "\<lambda>_ i. int i \<noteq> index" 0 "menuItems s"]
    by (auto simp: removeMenuItem_def filter_indexed_distinct)
next
  case (menu_click s)
  then show ?case by (simp add: analyzeMenu_call_def analyze_disabled_def)
next
  case (menu_settle s r)
  then show ?case by (cases r) (simp_all add: analyzeMenu_resume_def)
qed simp_all

section \<open>The collector: add and remove\<close>

text \<open>
  C4. \<open>add(raw)\<close> trims \<open>raw\<close>. If the trimmed string is empty or already in the
  collection, the collection is unchanged (and so is everything else: the input field
  keeps \<open>raw\<close>). Otherwise the trimmed string is appended behind the existing items and
  the input field is cleared. Adding the same string a second time changes nothing, so
  a collection without duplicates holds the trimmed string exactly once afterwards. The
  same holds for both panels.
\<close>

theorem add_trims_dedupes_appends:
  "(trim raw = [] \<or> trim raw \<in> set (RecipeGenerator.ingredients s) \<longrightarrow>
      recipe_add_raw raw s = s\<lparr>newIngredient := raw\<rparr>) \<and>
   (trim raw \<noteq> [] \<and> trim raw \<notin> set (RecipeGenerator.ingredients s) \<longrightarrow>
      recipe_add_raw raw s =
        s\<lparr>RecipeGenerator.ingredients := RecipeGenerator.ingredients s @ [trim raw],
          newIngredient := []\<rparr>) \<and>
   RecipeGenerator.ingredients (recipe_add_raw raw (recipe_add_raw raw s)) =
     RecipeGenerator.ingredients (recipe_add_raw raw s) \<and>
   (trim raw \<noteq> [] \<and> distinct (RecipeGenerator.ingredients s) \<longrightarrow>
      count_list (RecipeGenerator.ingredients (recipe_add_raw raw (recipe_add_raw raw s)))
        (trim raw) = 1) \<and>
   (trim raw = [] \<or> trim raw \<in> set (menuItems t) \<longrightarrow>
      menu_add_raw raw t = t\<lparr>newMenuItem := raw\<rparr>) \<and>
   (trim raw \<noteq> [] \<and> trim raw \<notin> set (menuItems t) \<longrightarrow>
      menu_add_raw raw t = t\<lparr>menuItems := menuItems t @ [trim raw], newMenuItem := []\<rparr>) \<and>
   menuItems (menu_add_raw raw (menu_add_raw raw t)) = menuItems (menu_add_raw raw t) \<and>
   (trim raw \<noteq> [] \<and> distinct (menuItems t) \<longrightarrow>
      count_list (menuItems (menu_add_raw raw (menu_add_raw raw t))) (trim raw) = 1)"
proof -
  have cnt: "count_list (xs @ [x]) x = 1" if "x \<notin> set xs" for xs :: "jsstring list" and x
    using that by (simp add: count_list_0_iff)
  have cnt1: "count_list xs x = 1" if "x \<in> set xs" "distinct xs" for xs :: "jsstring list" and x
    using that by (induction xs) (auto simp: count_list_0_iff)
  show ?thesis
    by (auto simp: recipe_add_raw_def addIngredient_def menu_add_raw_def addMenuItem_def
        includes_js_def cnt cnt1)
qed

theorem add_trims_dedupes_appends_witness:
  "trim (lit '' '') = [] \<and>
   recipe_add_raw (lit '' '') RecipeGenerator_init =
     RecipeGenerator_init\<lparr>newIngredient := lit '' ''\<rparr> \<and>
   trim (lit '' egg '') = lit ''egg'' \<and>
   recipe_add_raw (lit '' egg '') RecipeGenerator_init =
     RecipeGenerator_init\<lparr>RecipeGenerator.ingredients := [lit ''egg'']\<rparr> \<and>
   count_list (RecipeGenerator.ingredients
     (recipe_add_raw (lit '' egg '') (recipe_add_raw (lit '' egg '') RecipeGenerator_init)))
     (lit ''egg'') = 1 \<and>
   menu_add_raw (lit '' '') MenuAnalyzer_init = MenuAnalyzer_init\<lparr>newMenuItem := lit '' ''\<rparr> \<and>
   menu_add_raw (lit '' egg '') MenuAnalyzer_init =
     MenuAnalyzer_init\<lparr>menuItems := [lit ''egg'']\<rparr> \<and>
   count_list (menuItems
     (menu_add_raw (lit '' egg '') (menu_add_raw (lit '' egg '') MenuAnalyzer_init)))
     (lit ''egg'') = 1"
proof -
  have e: "trim (lit '' '') = []" by (simp add: trim_def lit_def isWhiteSpace_def)
  have n: "lit ''egg'' \<noteq> []" by (simp add: lit_def)
  show ?thesis
    using add_trims_dedupes_appends [of "lit '' ''" RecipeGenerator_init MenuAnalyzer_init]
      add_trims_dedupes_appends [of "lit '' egg ''" RecipeGenerator_init MenuAnalyzer_init]
    by (simp add: e trim_egg n RecipeGenerator_init_def MenuAnalyzer_init_def recipe_add_raw_def
        addIngredient_def menu_add_raw_def addMenuItem_def includes_js_def)
qed

text \<open>
  C5. \<open>remove(index)\<close> with \<open>0 \<le> index < length\<close> yields the items before the position
  followed by the items behind it, in their order, and touches nothing else. With any
  other integer index it returns the state as it was. The handler is a filter and has no
  failing branch. The same holds for both panels.
\<close>

theorem remove_by_index:
  "(0 \<le> index \<and> index < int (length (RecipeGenerator.ingredients s)) \<longrightarrow>
      removeIngredient index s =
        s\<lparr>RecipeGenerator.ingredients :=
            take (nat index) (RecipeGenerator.ingredients s) @
            drop (Suc (nat index)) (RecipeGenerator.ingredients s)\<rparr>) \<and>
   (index < 0 \<or> int (length (RecipeGenerator.ingredients s)) \<le> index \<longrightarrow>
      removeIngredient index s = s) \<and>
   (0 \<le> index \<and> index < int (length (menuItems t)) \<longrightarrow>
      removeMenuItem index t =
        t\<lparr>menuItems := take (nat index) (menuItems t) @ drop (Suc (nat index)) (menuItems t)\<rparr>) \<and>
   (index < 0 \<or> int (length (menuItems t)) \<le> index \<longrightarrow> removeMenuItem index t = t)"
  by (simp add: removeIngredient_def removeMenuItem_def filter_indexed_skip)

theorem remove_by_index_witness:
  "removeIngredient 1
     (RecipeGenerator_init\<lparr>RecipeGenerator.ingredients := [lit ''a'', lit ''b'', lit ''c'']\<rparr>) =
     RecipeGenerator_init\<lparr>RecipeGenerator.ingredients := [lit ''a'', lit ''c'']\<rparr> \<and>
   removeIngredient 3
     (RecipeGenerator_init\<lparr>RecipeGenerator.ingredients := [lit ''a'', lit ''b'', lit ''c'']\<rparr>) =
     RecipeGenerator_init\<lparr>RecipeGenerator.ingredients := [lit ''a'', lit ''b'', lit ''c'']\<rparr> \<and>
   removeMenuItem 0 (MenuAnalyzer_init\<lparr>menuItems := [lit ''a'', lit ''b'']\<rparr>) =
     MenuAnalyzer_init\<lparr>menuItems := [lit ''b'']\<rparr> \<and>
   removeMenuItem (- 1) (MenuAnalyzer_init\<lparr>menuItems := [lit ''a'', lit ''b'']\<rparr>) =
     MenuAnalyzer_init\<lparr>menuItems := [lit ''a'', lit ''b'']\<rparr>"
  using
    remove_by_index [of 1
      "RecipeGenerator_init\<lparr>RecipeGenerator.ingredients := [lit ''a'', lit ''b'', lit ''c'']\<rparr>"
      MenuAnalyzer_init]
    remove_by_index [of 3
      "RecipeGenerator_init\<lparr>RecipeGenerator.ingredients := [lit ''a'', lit ''b'', lit ''c'']\<rparr>"
      MenuAnalyzer_init]
    remove_by_index [of 0 RecipeGenerator_init
      "MenuAnalyzer_init\<lparr>menuItems := [lit ''a'', lit ''b'']\<rparr>"]
    remove_by_index [of "- 1" RecipeGenerator_init
      "MenuAnalyzer_init\<lparr>menuItems := [lit ''a'', lit ''b'']\<rparr>"]
  by (simp add: RecipeGenerator_init_def MenuAnalyzer_init_def)

section \<open>Submitting\<close>

text \<open>
  C3. Called on an empty item collection, \<open>generateRecipe\<close> / \<open>analyzeMenu\<close> returns at
  once: the only change to the state is the error message, set to the panel's validation
  text, so a result held before stays as it was; no request is posted (there is no
  effect at all); and the status read off the state is \<open>Error\<close>, the alert showing the
  validation text.
\<close>

theorem empty_submit_is_local:
  "(length (RecipeGenerator.ingredients s) = 0 \<longrightarrow>
      generateRecipe r s =
        (s\<lparr>RecipeGenerator.error := lit ''Please add at least one ingredient''\<rparr>, []) \<and>
      posts (snd (generateRecipe r s)) = [] \<and>
      recipe_status (fst (generateRecipe r s)) = Error \<and>
      recipe_alert (fst (generateRecipe r s)) =
        Some (lit ''Please add at least one ingredient'')) \<and>
   (length (menuItems t) = 0 \<longrightarrow>
      analyzeMenu q t = (t\<lparr>error := lit ''Please add at least one menu item''\<rparr>, []) \<and>
      posts (snd (analyzeMenu q t)) = [] \<and>
      menu_status (fst (analyzeMenu q t)) = Error \<and>
      menu_alert (fst (analyzeMenu q t)) = Some (lit ''Please add at least one menu item''))"
  by (simp add: generateRecipe_def generateRecipe_call_def analyzeMenu_def analyzeMenu_call_def
      recipe_status_def menu_status_def panel_status_def recipe_alert_def menu_alert_def
      lit_Nil_iff)

theorem empty_submit_is_local_witness:
  "length (RecipeGenerator.ingredients recipe_run_emptied) = 0 \<and>
   generateRecipe Rejected recipe_run_emptied =
     (recipe_run_emptied\<lparr>RecipeGenerator.error := lit ''Please add at least one ingredient''\<rparr>,
      []) \<and>
   recipe (fst (generateRecipe Rejected recipe_run_emptied)) = Some (Parsed mocked_recipe) \<and>
   recipe_status (fst (generateRecipe Rejected recipe_run_emptied)) = Error \<and>
   length (menuItems MenuAnalyzer_init) = 0 \<and>
   analyzeMenu Rejected MenuAnalyzer_init =
     (MenuAnalyzer_init\<lparr>error := lit ''Please add at least one menu item''\<rparr>, []) \<and>
   menu_status (fst (analyzeMenu Rejected MenuAnalyzer_init)) = Error"
proof -
  have h: "length (RecipeGenerator.ingredients recipe_run_emptied) = 0"
    by (simp add: recipe_run_emptied_eq RecipeGenerator_init_def)
  have k: "length (menuItems MenuAnalyzer_init) = 0" by (simp add: MenuAnalyzer_init_def)
  have r: "recipe recipe_run_emptied = Some (Parsed mocked_recipe)"
    by (simp add: recipe_run_emptied_eq RecipeGenerator_init_def)
  from empty_submit_is_local [of recipe_run_emptied Rejected MenuAnalyzer_init Rejected] h k
  have c: "generateRecipe Rejected recipe_run_emptied =
       (recipe_run_emptied\<lparr>RecipeGenerator.error := lit ''Please add at least one ingredient''\<rparr>,
        []) \<and>
     recipe_status (fst (generateRecipe Rejected recipe_run_emptied)) = Error \<and>
     analyzeMenu Rejected MenuAnalyzer_init =
       (MenuAnalyzer_init\<lparr>error := lit ''Please add at least one menu item''\<rparr>, []) \<and>
     menu_status (fst (analyzeMenu Rejected MenuAnalyzer_init)) = Error"
    by blast
  then have "recipe (fst (generateRecipe Rejected recipe_run_emptied)) = Some (Parsed mocked_recipe)"
    using r by simp
  with h k c show ?thesis by blast
qed

text \<open>
  C7. Called on a non-empty collection, \<open>generateRecipe\<close> / \<open>analyzeMenu\<close> sets
  \<open>loading\<close>, empties the error message and drops the result, which reads as status
  \<open>Loading\<close> and disables the trigger, and posts one request to the panel's endpoint
  with the items and the modifier as body. The whole run, however the request settles,
  posts that one request and no other.
\<close>

theorem valid_submit_posts_once:
  "(length (RecipeGenerator.ingredients s) \<noteq> 0 \<longrightarrow>
      generateRecipe_call s =
        (s\<lparr>RecipeGenerator.loading := True, RecipeGenerator.error := [], recipe := None\<rparr>,
         [HttpPost (lit ''http://localhost:8001/generate-recipe'')
            \<lparr>RecipeRequest.ingredients = RecipeGenerator.ingredients s,
             dietary_preferences =
               (if dietaryPreferences s = [] then None else Some (dietaryPreferences s))\<rparr>]) \<and>
      recipe_status (fst (generateRecipe_call s)) = Loading \<and>
      generate_disabled (fst (generateRecipe_call s)) \<and>
      posts (snd (generateRecipe r s)) = posts (snd (generateRecipe_call s)) \<and>
      length (posts (snd (generateRecipe r s))) = 1) \<and>
   (length (menuItems t) \<noteq> 0 \<longrightarrow>
      analyzeMenu_call t =
        (t\<lparr>loading := True, error := [], analysis := None\<rparr>,
         [HttpPost (lit ''http://localhost:8001/restaurant-analysis'')
            \<lparr>menu_items = menuItems t,
             restaurant_name =
               Some (if restaurantName t = [] then lit ''Restaurant'' else restaurantName t)\<rparr>]) \<and>
      menu_status (fst (analyzeMenu_call t)) = Loading \<and>
      analyze_disabled (fst (analyzeMenu_call t)) \<and>
      posts (snd (analyzeMenu q t)) = posts (snd (analyzeMenu_call t)) \<and>
      length (posts (snd (analyzeMenu q t))) = 1)"
proof -
  have a: "length (RecipeGenerator.ingredients s) \<noteq> 0 \<longrightarrow>
      generateRecipe_call s =
        (s\<lparr>RecipeGenerator.loading := True, RecipeGenerator.error := [], recipe := None\<rparr>,
         [HttpPost (lit ''http://localhost:8001/generate-recipe'')
            \<lparr>RecipeRequest.ingredients = RecipeGenerator.ingredients s,
             dietary_preferences =
               (if dietaryPreferences s = [] then None else Some (dietaryPreferences s))\<rparr>]) \<and>
      recipe_status (fst (generateRecipe_call s)) = Loading \<and>
      generate_disabled (fst (generateRecipe_call s)) \<and>
      posts (snd (generateRecipe r s)) = posts (snd (generateRecipe_call s)) \<and>
      length (posts (snd (generateRecipe r s))) = 1"
    by (cases r)
      (simp_all add: generateRecipe_def generateRecipe_call_def generateRecipe_resume_def
        recipe_status_def panel_status_def generate_disabled_def)
  have b: "length (menuItems t) \<noteq> 0 \<longrightarrow>
      analyzeMenu_call t =
        (t\<lparr>loading := True, error := [], analysis := None\<rparr>,
         [HttpPost (lit ''http://localhost:8001/restaurant-analysis'')
            \<lparr>menu_items = menuItems t,
             restaurant_name =
               Some (if restaurantName t = [] then lit ''Restaurant'' else restaurantName t)\<rparr>]) \<and>
      menu_status (fst (analyzeMenu_call t)) = Loading \<and>
      analyze_disabled (fst (analyzeMenu_call t)) \<and>
      posts (snd (analyzeMenu q t)) = posts (snd (analyzeMenu_call t)) \<and>
      length (posts (snd (analyzeMenu q t))) = 1"
    by (cases q)
      (simp_all add: analyzeMenu_def analyzeMenu_call_def analyzeMenu_resume_def
        menu_status_def panel_status_def analyze_disabled_def)
  from a b show ?thesis by blast
qed

theorem valid_submit_posts_once_witness:
  "length (RecipeGenerator.ingredients recipe_run_added) \<noteq> 0 \<and>
   fst (generateRecipe_call recipe_run_added) = recipe_run_pending \<and>
   recipe_status recipe_run_pending = Loading \<and>
   posts (snd (generateRecipe Rejected recipe_run_added)) =
     [(lit ''http://localhost:8001/generate-recipe'',
       \<lparr>RecipeRequest.ingredients = [lit ''egg''], dietary_preferences = None\<rparr>)] \<and>
   length (menuItems menu_run_added) \<noteq> 0 \<and>
   fst (analyzeMenu_call menu_run_added) = menu_run_pending \<and>
   menu_status menu_run_pending = Loading \<and>
   posts (snd (analyzeMenu (Resolved None) menu_run_added)) =
     [(lit ''http://localhost:8001/restaurant-analysis'',
       \<lparr>menu_items = [lit ''soup''], restaurant_name = Some (lit ''Restaurant'')\<rparr>)]"
proof -
  have h: "length (RecipeGenerator.ingredients recipe_run_added) \<noteq> 0"
    by (simp add: recipe_run_added_eq RecipeGenerator_init_def)
  have k: "length (menuItems menu_run_added) \<noteq> 0"
    by (simp add: menu_run_added_eq MenuAnalyzer_init_def)
  from valid_submit_posts_once [of recipe_run_added Rejected menu_run_added "Resolved None"] h k
  have c: "recipe_status (fst (generateRecipe_call recipe_run_added)) = Loading \<and>
     posts (snd (generateRecipe Rejected recipe_run_added)) =
       posts (snd (generateRecipe_call recipe_run_added)) \<and>
     menu_status (fst (analyzeMenu_call menu_run_added)) = Loading \<and>
     posts (snd (analyzeMenu (Resolved None) menu_run_added)) =
       posts (snd (analyzeMenu_call menu_run_added))"
    by blast
  have p: "posts (snd (generateRecipe_call recipe_run_added)) =
     [(lit ''http://localhost:8001/generate-recipe'',
       \<lparr>RecipeRequest.ingredients = [lit ''egg''], dietary_preferences = None\<rparr>)]"
    by (simp add: recipe_run_added_eq generateRecipe_call_def RecipeGenerator_init_def)
  have q: "posts (snd (analyzeMenu_call menu_run_added)) =
     [(lit ''http://localhost:8001/restaurant-analysis'',
       \<lparr>menu_items = [lit ''soup''], restaurant_name = Some (lit ''Restaurant'')\<rparr>)]"
    by (simp add: menu_run_added_eq analyzeMenu_call_def MenuAnalyzer_init_def)
  show ?thesis using h k c p q by (simp add: recipe_run_pending_def menu_run_pending_def)
qed




section \<open>Scores\<close>

text \<open>
  C10. In the recipe panel \<open>getScoreIcon\<close> gives \<open>red\<close> the icon it gives \<open>yellow\<close>, the
  warning sign; the two scores differ in their colour class only.
\<close>

theorem red_icon_is_yellow_icon:
  "recipe_getScoreIcon (lit ''red'') = [0x26A0, 0xFE0F] \<and>
   recipe_getScoreIcon (lit ''yellow'') = [0x26A0, 0xFE0F] \<and>
   recipe_getScoreIcon (lit ''red'') = recipe_getScoreIcon (lit ''yellow'') \<and>
   recipe_getScoreColor (lit ''red'') = lit ''text-red-600 bg-red-100'' \<and>
   recipe_getScoreColor (lit ''yellow'') = lit ''text-yellow-600 bg-yellow-100'' \<and>
   recipe_getScoreColor (lit ''red'') \<noteq> recipe_getScoreColor (lit ''yellow'')"
  by (simp add: recipe_getScoreIcon_def recipe_getScoreColor_def lit_eq_iff)

text \<open>
  C9. When a submission resolves with the specification's example response, the display
  section is the recipe card with two ingredient entries, carrot and broccoli, two
  instruction entries numbered 1 and 2, Chop and Cook, the green colour class and the
  check mark for the eco score, and the yellow colour class and the warning sign for the
  health score.
\<close>

theorem mocked_recipe_rendering:
  "length (RecipeGenerator.ingredients s) \<noteq> 0 \<longrightarrow>
     render_recipe (fst (generateRecipe (Resolved (Some (Parsed mocked_recipe))) s)) =
       Card \<lparr>card_name = lit ''Veggie Stir Fry'',
             card_prep_time = lit ''20 min'',
             card_calories = 320,
             card_difficulty = lit ''Easy'',
             eco_class = lit ''p-3 rounded-lg text-green-600 bg-green-100'',
             eco_icon = [0x2705],
             health_class = lit ''p-3 rounded-lg text-yellow-600 bg-yellow-100'',
             health_icon = [0x26A0, 0xFE0F],
             card_eco_tip = lit ''Use scraps for stock'',
             ingredient_entries = [(0, lit ''carrot''), (1, lit ''broccoli'')],
             instruction_entries = [(0, 1, lit ''Chop''), (1, 2, lit ''Cook'')]\<rparr>"
proof -
  have c: "lit ''p-3 rounded-lg '' @ lit x = lit (''p-3 rounded-lg '' @ x)" for x
    by (simp add: lit_def)
  show ?thesis
    by (simp add: generateRecipe_def generateRecipe_call_def generateRecipe_resume_def
        render_recipe_def mocked_recipe_def recipe_getScoreColor_def recipe_getScoreIcon_def
        lit_eq_iff c)
qed

theorem mocked_recipe_rendering_witness:
  "length (RecipeGenerator.ingredients recipe_run_added) \<noteq> 0 \<and>
   (case render_recipe (fst (generateRecipe (Resolved (Some (Parsed mocked_recipe))) recipe_run_added)) of
      Card c \<Rightarrow>
        length (ingredient_entries c) = 2 \<and> map fst (instruction_entries c) = [0, 1] \<and>
        map (fst \<circ> snd) (instruction_entries c) = [1, 2] \<and> eco_icon c = [0x2705] \<and>
        health_icon c = [0x26A0, 0xFE0F]
    | Placeholder p \<Rightarrow> False
    | RenderTypeError \<Rightarrow> False)"
proof -
  have h: "length (RecipeGenerator.ingredients recipe_run_added) \<noteq> 0"
    by (simp add: recipe_run_added_eq RecipeGenerator_init_def)
  have "render_recipe (fst (generateRecipe (Resolved (Some (Parsed mocked_recipe))) recipe_run_added)) =
       Card \<lparr>card_name = lit ''Veggie Stir Fry'',
             card_prep_time = lit ''20 min'',
             card_calories = 320,
             card_difficulty = lit ''Easy'',
             eco_class = lit ''p-3 rounded-lg text-green-600 bg-green-100'',
             eco_icon = [0x2705],
             health_class = lit ''p-3 rounded-lg text-yellow-600 bg-yellow-100'',
             health_icon = [0x26A0, 0xFE0F],
             card_eco_tip = lit ''Use scraps for stock'',
             ingredient_entries = [(0, lit ''carrot''), (1, lit ''broccoli'')],
             instruction_entries = [(0, 1, lit ''Chop''), (1, 2, lit ''Cook'')]\<rparr>"
    by (rule mocked_recipe_rendering [of recipe_run_added, THEN mp, OF h])
  then show ?thesis using h by simp
qed

text \<open>
  C8. In both panels the colour and the icon of a score are defined for every string.
  The colour is one of four classes and is the gray one for every string other than
  \<open>green\<close>, \<open>yellow\<close> and \<open>red\<close>. In the recipe panel such a string gets the question
  mark, which no recognised score gets. In the menu panel such a string gets the
  \<open>AlertCircle\<close> element, the one \<open>yellow\<close> gets: there the fallback has no icon of its
  own.
\<close>

theorem score_presentation_total:
  "menu_getScoreColor score = recipe_getScoreColor score \<and>
   recipe_getScoreColor score \<in>
     {lit ''text-green-600 bg-green-100'', lit ''text-yellow-600 bg-yellow-100'',
      lit ''text-red-600 bg-red-100'', lit ''text-gray-600 bg-gray-100''} \<and>
   recipe_getScoreIcon score \<in> {[0x2705], [0x26A0, 0xFE0F], [0x2753]} \<and>
   menu_getScoreIcon score \<in>
     {CheckCircle (lit ''h-5 w-5''), AlertCircle (lit ''h-5 w-5''), XCircle (lit ''h-5 w-5'')} \<and>
   (score \<noteq> lit ''green'' \<and> score \<noteq> lit ''yellow'' \<and> score \<noteq> lit ''red'' \<longrightarrow>
      recipe_getScoreColor score = lit ''text-gray-600 bg-gray-100'' \<and>
      recipe_getScoreIcon score = [0x2753] \<and>
      menu_getScoreColor score = lit ''text-gray-600 bg-gray-100'' \<and>
      menu_getScoreIcon score = AlertCircle (lit ''h-5 w-5'')) \<and>
   (score = lit ''green'' \<or> score = lit ''yellow'' \<or> score = lit ''red'' \<longrightarrow>
      recipe_getScoreColor score \<noteq> lit ''text-gray-600 bg-gray-100'' \<and>
      recipe_getScoreIcon score \<noteq> [0x2753]) \<and>
   menu_getScoreIcon (lit ''yellow'') = AlertCircle (lit ''h-5 w-5'')"
proof -
  have g: "lit ''yellow'' \<noteq> lit ''green''" "lit ''red'' \<noteq> lit ''green''"
    "lit ''red'' \<noteq> lit ''yellow''"
    by (simp_all add: lit_eq_iff)
  have c: "lit ''text-green-600 bg-green-100'' \<noteq> lit ''text-gray-600 bg-gray-100''"
    "lit ''text-yellow-600 bg-yellow-100'' \<noteq> lit ''text-gray-600 bg-gray-100''"
    "lit ''text-red-600 bg-red-100'' \<noteq> lit ''text-gray-600 bg-gray-100''"
    by (simp_all add: lit_eq_iff)
  show ?thesis
    by (simp add: recipe_getScoreColor_def recipe_getScoreIcon_def menu_getScoreColor_def
        menu_getScoreIcon_def g c)
qed

theorem score_presentation_total_witness:
  "lit ''unknown'' \<noteq> lit ''green'' \<and> lit ''unknown'' \<noteq> lit ''yellow'' \<and>
   lit ''unknown'' \<noteq> lit ''red'' \<and>
   recipe_getScoreColor (lit ''unknown'') = lit ''text-gray-600 bg-gray-100'' \<and>
   recipe_getScoreIcon (lit ''unknown'') = [0x2753] \<and>
   menu_getScoreColor (lit ''unknown'') = lit ''text-gray-600 bg-gray-100'' \<and>
   menu_getScoreIcon (lit ''unknown'') = AlertCircle (lit ''h-5 w-5'') \<and>
   recipe_getScoreColor (lit ''red'') \<noteq> lit ''text-gray-600 bg-gray-100'' \<and>
   recipe_getScoreIcon (lit ''red'') \<noteq> [0x2753]"
proof -
  have h: "lit ''unknown'' \<noteq> lit ''green'' \<and> lit ''unknown'' \<noteq> lit ''yellow'' \<and>
      lit ''unknown'' \<noteq> lit ''red''"
    by (simp add: lit_eq_iff)
  have r: "lit ''red'' = lit ''green'' \<or> lit ''red'' = lit ''yellow'' \<or> lit ''red'' = lit ''red''"
    by simp
  have u: "recipe_getScoreColor (lit ''unknown'') = lit ''text-gray-600 bg-gray-100'' \<and>
      recipe_getScoreIcon (lit ''unknown'') = [0x2753] \<and>
      menu_getScoreColor (lit ''unknown'') = lit ''text-gray-600 bg-gray-100'' \<and>
      menu_getScoreIcon (lit ''unknown'') = AlertCircle (lit ''h-5 w-5'')"
    by (rule score_presentation_total [of "lit ''unknown''", THEN conjunct2, THEN conjunct2,
          THEN conjunct2, THEN conjunct2, THEN conjunct1, THEN mp, OF h])
  have k: "recipe_getScoreColor (lit ''red'') \<noteq> lit ''text-gray-600 bg-gray-100'' \<and>
      recipe_getScoreIcon (lit ''red'') \<noteq> [0x2753]"
    by (rule score_presentation_total [of "lit ''red''", THEN conjunct2, THEN conjunct2,
          THEN conjunct2, THEN conjunct2, THEN conjunct2, THEN conjunct1, THEN mp, OF r])
  from h u k show ?thesis by simp
qed

text \<open>
  The menu panel at a string that is no score: the icon is the one of \<open>yellow\<close>.
\<close>

theorem menu_fallback_icon_counterexample:
  "menu_getScoreIcon (lit ''unknown'') = AlertCircle (lit ''h-5 w-5'') \<and>
   menu_getScoreIcon (lit ''yellow'') = AlertCircle (lit ''h-5 w-5'') \<and>
   menu_getScoreIcon (lit ''unknown'') = menu_getScoreIcon (lit ''yellow'')"
  by (simp add: menu_getScoreIcon_def lit_eq_iff)

text \<open>
  C1. A submission with a blank modifier field posts, in the recipe panel, the body with
  \<open>dietary_preferences\<close> null, and in the menu panel the body with \<open>restaurant_name\<close>
  the string \<open>Restaurant\<close>, which the component puts in place of a blank name.
\<close>

theorem blank_modifier_payload:
  "(length (RecipeGenerator.ingredients s) \<noteq> 0 \<and> dietaryPreferences s = [] \<longrightarrow>
      posts (snd (generateRecipe r s)) =
        [(lit ''http://localhost:8001/generate-recipe'',
          \<lparr>RecipeRequest.ingredients = RecipeGenerator.ingredients s,
           dietary_preferences = None\<rparr>)]) \<and>
   (length (menuItems t) \<noteq> 0 \<and> restaurantName t = [] \<longrightarrow>
      posts (snd (analyzeMenu q t)) =
        [(lit ''http://localhost:8001/restaurant-analysis'',
          \<lparr>menu_items = menuItems t, restaurant_name = Some (lit ''Restaurant'')\<rparr>)])"
proof -
  have a: "length (RecipeGenerator.ingredients s) \<noteq> 0 \<and> dietaryPreferences s = [] \<longrightarrow>
      posts (snd (generateRecipe r s)) =
        [(lit ''http://localhost:8001/generate-recipe'',
          \<lparr>RecipeRequest.ingredients = RecipeGenerator.ingredients s,
           dietary_preferences = None\<rparr>)]"
    by (cases r)
      (simp_all add: generateRecipe_def generateRecipe_call_def generateRecipe_resume_def)
  have b: "length (menuItems t) \<noteq> 0 \<and> restaurantName t = [] \<longrightarrow>
      posts (snd (analyzeMenu q t)) =
        [(lit ''http://localhost:8001/restaurant-analysis'',
          \<lparr>menu_items = menuItems t, restaurant_name = Some (lit ''Restaurant'')\<rparr>)]"
    by (cases q) (simp_all add: analyzeMenu_def analyzeMenu_call_def analyzeMenu_resume_def)
  from a b show ?thesis by blast
qed

theorem blank_modifier_payload_witness:
  "length (RecipeGenerator.ingredients recipe_run_added) \<noteq> 0 \<and>
   dietaryPreferences recipe_run_added = [] \<and>
   map (dietary_preferences \<circ> snd)
     (posts (snd (generateRecipe (Resolved (Some (Parsed mocked_recipe))) recipe_run_added))) = [None] \<and>
   length (menuItems menu_run_added) \<noteq> 0 \<and> restaurantName menu_run_added = [] \<and>
   map (restaurant_name \<circ> snd) (posts (snd (analyzeMenu Rejected menu_run_added))) =
     [Some (lit ''Restaurant'')]"
proof -
  have h: "length (RecipeGenerator.ingredients recipe_run_added) \<noteq> 0 \<and>
      dietaryPreferences recipe_run_added = []"
    by (simp add: recipe_run_added_eq RecipeGenerator_init_def)
  have k: "length (menuItems menu_run_added) \<noteq> 0 \<and> restaurantName menu_run_added = []"
    by (simp add: menu_run_added_eq MenuAnalyzer_init_def)
  have "posts (snd (generateRecipe (Resolved (Some (Parsed mocked_recipe))) recipe_run_added)) =
        [(lit ''http://localhost:8001/generate-recipe'',
          \<lparr>RecipeRequest.ingredients = RecipeGenerator.ingredients recipe_run_added,
           dietary_preferences = None\<rparr>)] \<and>
      posts (snd (analyzeMenu Rejected menu_run_added)) =
        [(lit ''http://localhost:8001/restaurant-analysis'',
          \<lparr>menu_items = menuItems menu_run_added, restaurant_name = Some (lit ''Restaurant'')\<rparr>)]"
    using blank_modifier_payload
      [of recipe_run_added "Resolved (Some (Parsed mocked_recipe))" menu_run_added Rejected,
        THEN conjunct1, THEN mp, OF h]
      blank_modifier_payload
      [of recipe_run_added "Resolved (Some (Parsed mocked_recipe))" menu_run_added Rejected,
        THEN conjunct2, THEN mp, OF k]
    by (rule conjI)
  then show ?thesis using h k by simp
qed

text \<open>
  The menu run at its submission: the name field is blank and the body names a
  restaurant all the same.
\<close>

theorem blank_restaurant_name_counterexample:
  "restaurantName menu_run_added = [] \<and>
   posts (snd (analyzeMenu_call menu_run_added)) =
     [(lit ''http://localhost:8001/restaurant-analysis'',
       \<lparr>menu_items = [lit ''soup''], restaurant_name = Some (lit ''Restaurant'')\<rparr>)] \<and>
   Some (lit ''Restaurant'') \<noteq> (None :: jsstring option)"
  by (simp add: menu_run_added_eq analyzeMenu_call_def MenuAnalyzer_init_def)

section \<open>Result and error message\<close>

text \<open>
  C2. In every state a panel reaches through typing, add, remove, and submissions
  made while the trigger is enabled, whether they succeed or fail, a result and an
  error message are never held together; with status \<open>Success\<close> the result alone is
  held, with status \<open>Error\<close> the message alone. A call of the submit handler on an
  empty collection sets the validation message and keeps the result it finds, so it
  leaves both populated when a result was displayed.
\<close>

theorem result_error_exclusive:
  "(recipe_reachable s \<longrightarrow>
      (recipe s = None \<or> RecipeGenerator.error s = []) \<and>
      (recipe_status s = Success \<longrightarrow> recipe s \<noteq> None \<and> RecipeGenerator.error s = []) \<and>
      (recipe_status s = Error \<longrightarrow> recipe s = None \<and> RecipeGenerator.error s \<noteq> [])) \<and>
   (length (RecipeGenerator.ingredients s) = 0 \<longrightarrow>
      recipe (fst (generateRecipe r s)) = recipe s \<and>
      RecipeGenerator.error (fst (generateRecipe r s)) =
        lit ''Please add at least one ingredient'') \<and>
   (menu_reachable t \<longrightarrow>
      (analysis t = None \<or> error t = []) \<and>
      (menu_status t = Success \<longrightarrow> analysis t \<noteq> None \<and> error t = []) \<and>
      (menu_status t = Error \<longrightarrow> analysis t = None \<and> error t \<noteq> [])) \<and>
   (length (menuItems t) = 0 \<longrightarrow>
      analysis (fst (analyzeMenu q t)) = analysis t \<and>
      error (fst (analyzeMenu q t)) = lit ''Please add at least one menu item'')"
proof -
  have a: "recipe_reachable s \<longrightarrow>
      (recipe s = None \<or> RecipeGenerator.error s = []) \<and>
      (recipe_status s = Success \<longrightarrow> recipe s \<noteq> None \<and> RecipeGenerator.error s = []) \<and>
      (recipe_status s = Error \<longrightarrow> recipe s = None \<and> RecipeGenerator.error s \<noteq> [])"
    using recipe_reachable_inv [of s] truthy_not_None [of "recipe s"]
    by (auto simp: recipe_status_def panel_status_def split: if_splits)
  have b: "length (RecipeGenerator.ingredients s) = 0 \<longrightarrow>
      recipe (fst (generateRecipe r s)) = recipe s \<and>
      RecipeGenerator.error (fst (generateRecipe r s)) =
        lit ''Please add at least one ingredient''"
    by (simp add: generateRecipe_def generateRecipe_call_def)
  have c: "menu_reachable t \<longrightarrow>
      (analysis t = None \<or> error t = []) \<and>
      (menu_status t = Success \<longrightarrow> analysis t \<noteq> None \<and> error t = []) \<and>
      (menu_status t = Error \<longrightarrow> analysis t = None \<and> error t \<noteq> [])"
    using menu_reachable_inv [of t] truthy_not_None [of "analysis t"]
    by (auto simp: menu_status_def panel_status_def split: if_splits)
  have d: "length (menuItems t) = 0 \<longrightarrow>
      analysis (fst (analyzeMenu q t)) = analysis t \<and>
      error (fst (analyzeMenu q t)) = lit ''Please add at least one menu item''"
    by (simp add: analyzeMenu_def analyzeMenu_call_def)
  show ?thesis by (intro conjI a b c d)
qed

theorem result_error_exclusive_witness:
  "recipe_reachable recipe_run_shown \<and> recipe_status recipe_run_shown = Success \<and>
   recipe recipe_run_shown \<noteq> None \<and> RecipeGenerator.error recipe_run_shown = [] \<and>
   recipe_reachable recipe_run_failed \<and> recipe_status recipe_run_failed = Error \<and>
   recipe recipe_run_failed = None \<and> RecipeGenerator.error recipe_run_failed \<noteq> [] \<and>
   menu_reachable menu_run_shown \<and> menu_status menu_run_shown = Success \<and>
   analysis menu_run_shown \<noteq> None \<and> error menu_run_shown = [] \<and>
   length (RecipeGenerator.ingredients RecipeGenerator_init) = 0 \<and>
   recipe (fst (generateRecipe Rejected RecipeGenerator_init)) = None \<and>
   RecipeGenerator.error (fst (generateRecipe Rejected RecipeGenerator_init)) =
     lit ''Please add at least one ingredient'' \<and>
   menu_reachable menu_run_failed \<and> menu_status menu_run_failed = Error \<and>
   analysis menu_run_failed = None \<and> error menu_run_failed \<noteq> [] \<and>
   length (menuItems MenuAnalyzer_init) = 0 \<and>
   analysis (fst (analyzeMenu Rejected MenuAnalyzer_init)) = None \<and>
   error (fst (analyzeMenu Rejected MenuAnalyzer_init)) =
     lit ''Please add at least one menu item''"
proof -
  note shown = result_error_exclusive [of recipe_run_shown Rejected menu_run_failed Rejected]
  note init = result_error_exclusive [of RecipeGenerator_init Rejected MenuAnalyzer_init Rejected]
  note failed = result_error_exclusive [of recipe_run_failed Rejected menu_run_shown Rejected]
  have s': "recipe_status recipe_run_failed = Error"
    by (simp add: recipe_run_failed_eq recipe_status_def panel_status_def
        RecipeGenerator_init_def lit_Nil_iff)
  have f': "menu_status menu_run_shown = Success"
    by (simp add: menu_run_shown_eq menu_status_def panel_status_def MenuAnalyzer_init_def)
  have 5: "recipe recipe_run_failed = None \<and> RecipeGenerator.error recipe_run_failed \<noteq> []"
    by (rule failed [THEN conjunct1, THEN mp, OF recipe_run_failed_reachable, THEN conjunct2,
          THEN conjunct2, THEN mp, OF s'])
  have 6: "analysis menu_run_shown \<noteq> None \<and> error menu_run_shown = []"
    by (rule failed [THEN conjunct2, THEN conjunct2, THEN conjunct1, THEN mp,
          OF menu_run_shown_reachable, THEN conjunct2, THEN conjunct1, THEN mp, OF f'])
  have s: "recipe_status recipe_run_shown = Success"
    by (simp add: recipe_run_shown_eq recipe_status_def panel_status_def
        RecipeGenerator_init_def)
  have f: "menu_status menu_run_failed = Error"
    by (simp add: menu_run_failed_eq menu_status_def panel_status_def MenuAnalyzer_init_def
        lit_Nil_iff)
  have e: "length (RecipeGenerator.ingredients RecipeGenerator_init) = 0"
    by (simp add: RecipeGenerator_init_def)
  have m: "length (menuItems MenuAnalyzer_init) = 0" by (simp add: MenuAnalyzer_init_def)
  have rn: "recipe RecipeGenerator_init = None" by (simp add: RecipeGenerator_init_def)
  have an: "analysis MenuAnalyzer_init = None" by (simp add: MenuAnalyzer_init_def)
  have 1: "recipe recipe_run_shown \<noteq> None \<and> RecipeGenerator.error recipe_run_shown = []"
    by (rule shown [THEN conjunct1, THEN mp, OF recipe_run_shown_reachable, THEN conjunct2,
          THEN conjunct1, THEN mp, OF s])
  have 2: "recipe (fst (generateRecipe Rejected RecipeGenerator_init)) =
        recipe RecipeGenerator_init \<and>
      RecipeGenerator.error (fst (generateRecipe Rejected RecipeGenerator_init)) =
        lit ''Please add at least one ingredient''"
    by (rule init [THEN conjunct2, THEN conjunct1, THEN mp, OF e])
  have 3: "analysis menu_run_failed = None \<and> error menu_run_failed \<noteq> []"
    by (rule shown [THEN conjunct2, THEN conjunct2, THEN conjunct1, THEN mp,
          OF menu_run_failed_reachable, THEN conjunct2, THEN conjunct2, THEN mp, OF f])
  have 4: "analysis (fst (analyzeMenu Rejected MenuAnalyzer_init)) = analysis MenuAnalyzer_init \<and>
      error (fst (analyzeMenu Rejected MenuAnalyzer_init)) =
        lit ''Please add at least one menu item''"
    by (rule init [THEN conjunct2, THEN conjunct2, THEN conjunct2, THEN mp, OF m])
  from 1 2 3 4 5 6 s f s' f' e m rn an recipe_run_shown_reachable menu_run_failed_reachable
    recipe_run_failed_reachable menu_run_shown_reachable
  show ?thesis by simp
qed

text \<open>
  The recipe run at its end: the state before the last call is reachable, its collection
  is empty and it displays a recipe; after the call it holds the recipe and the
  validation message together, with status \<open>Error\<close>.
\<close>

theorem stale_result_counterexample:
  "recipe_reachable recipe_run_emptied \<and>
   length (RecipeGenerator.ingredients recipe_run_emptied) = 0 \<and>
   fst (generateRecipe Rejected recipe_run_emptied) = recipe_run_invalid \<and>
   recipe_status recipe_run_invalid = Error \<and>
   recipe recipe_run_invalid = Some (Parsed mocked_recipe) \<and>
   RecipeGenerator.error recipe_run_invalid = lit ''Please add at least one ingredient'' \<and>
   lit ''Please add at least one ingredient'' \<noteq> []"
proof -
  have e: "length (RecipeGenerator.ingredients recipe_run_emptied) = 0"
    by (simp add: recipe_run_emptied_eq RecipeGenerator_init_def)
  then have g: "fst (generateRecipe Rejected recipe_run_emptied) = recipe_run_invalid"
    by (simp add: generateRecipe_def recipe_run_invalid_def)
  have i: "recipe_status recipe_run_invalid = Error \<and>
      recipe recipe_run_invalid = Some (Parsed mocked_recipe) \<and>
      RecipeGenerator.error recipe_run_invalid = lit ''Please add at least one ingredient''"
    by (simp add: recipe_run_invalid_eq recipe_status_def panel_status_def lit_Nil_iff
        RecipeGenerator_init_def)
  from e g i recipe_run_emptied_reachable show ?thesis by (simp add: lit_Nil_iff)
qed

end
